theory Spec2Isabelle
  imports
    Main
    "HOL-Library.Word"
    "HOL-Library.FSet"
    "HOL-Library.Finite_Map"
    "HOL-Library.Char_ord"
    "HOL-Library.List_Lexorder"
begin

section \<open>Relation reconciliation of the CAAS operator (worker/caasoperator/relation)\<close>

text \<open>
  The development follows \<^verbatim>\<open>src/worker/caasoperator/relation/relations.go\<close>.
  Go strings are byte strings compared bytewise, which is the lexicographic order of
  \<^typ>\<open>string\<close> over the byte order of \<^typ>\<open>char\<close>. A Go \<^verbatim>\<open>map[string]int64\<close> is a finite map
  from strings to 64-bit words; reading an absent key gives the zero value.
\<close>

subsection \<open>Data model\<close>

type_synonym int64 = "64 word"

text \<open>\<^verbatim>\<open>hooks.Kind\<close> is a string type; the four relation kinds are the ones this package
  builds, \<open>OtherKind\<close> stands for every other value (the zero value is \<open>OtherKind []\<close>).\<close>

datatype Kind =
    RelationJoined
  | RelationChanged
  | RelationDeparted
  | RelationBroken
  | OtherKind string

text \<open>\<^verbatim>\<open>hook.Info\<close>, with the fields this package sets.\<close>

record Info =
  Kind :: Kind
  RelationId :: int
  RemoteUnit :: string
  ChangeVersion :: int64

text \<open>\<^verbatim>\<open>params.Life\<close> is a string type as well; \<open>OtherLife []\<close> is its zero value.\<close>

datatype Life = Alive | Dying | Dead | OtherLife string

text \<open>\<^verbatim>\<open>remotestate.RelationSnapshot\<close>.\<close>

record RelationSnapshot =
  Life :: Life
  Members :: "(string, int64) fmap"

text \<open>The local \<^verbatim>\<open>State\<close> of one relation (what \<^verbatim>\<open>relationer.dir.State()\<close> returns).\<close>

record State =
  StateRelationId :: int
  StateMembers :: "(string, int64) fmap"
  ChangedPending :: string

text \<open>The errors this package returns or inspects. \<^verbatim>\<open>errors.Trace\<close> keeps the cause of
  an error, which is all that the code looks at, so it is the identity here.\<close>

datatype error =
    ErrNoOperation
  | ErrLoopAborted
  | UnknownRelation int
  | NotARelationHook
  | UnitWatcherClosed
  | CodeCannotEnterScope
  | CodeCannotEnterScopeYet
  | CodeNotFound
  | CodeUnauthorized
  | OtherError string

subsection \<open>nextRelationHook\<close>

text \<open>\<^verbatim>\<open>m[k]\<close> on a Go map: the value stored, or the zero value.\<close>

definition memberVersion :: "(string, int64) fmap \<Rightarrow> string \<Rightarrow> int64" where
  "memberVersion m unitName = (case fmlookup m unitName of None \<Rightarrow> 0 | Some v \<Rightarrow> v)"

text \<open>\<^verbatim>\<open>allUnitNames.SortedValues()\<close> of the \<^verbatim>\<open>set.Strings\<close> that collects the keys of both
  maps.\<close>

definition sortedUnitNames :: "State \<Rightarrow> RelationSnapshot \<Rightarrow> string list" where
  "sortedUnitNames local remote =
     sorted_list_of_fset (fmdom (StateMembers local) |\<union>| fmdom (Members remote))"

text \<open>The first loop: depart a locally known unit that the remote state no longer has.\<close>

fun departedLoop :: "State \<Rightarrow> RelationSnapshot \<Rightarrow> string list \<Rightarrow> Info option" where
  "departedLoop local remote [] = None"
| "departedLoop local remote (unitName # rest) =
     (case fmlookup (StateMembers local) unitName of
        None \<Rightarrow> departedLoop local remote rest
      | Some changeVersion \<Rightarrow>
          (case fmlookup (Members remote) unitName of
             None \<Rightarrow> Some \<lparr>Kind = RelationDeparted, RelationId = StateRelationId local,
                           RemoteUnit = unitName, ChangeVersion = changeVersion\<rparr>
           | Some _ \<Rightarrow> departedLoop local remote rest))"

text \<open>The second loop: join a remote unit that is not locally known.\<close>

fun joinedLoop :: "State \<Rightarrow> RelationSnapshot \<Rightarrow> string list \<Rightarrow> Info option" where
  "joinedLoop local remote [] = None"
| "joinedLoop local remote (unitName # rest) =
     (case fmlookup (Members remote) unitName of
        None \<Rightarrow> joinedLoop local remote rest
      | Some changeVersion \<Rightarrow>
          (case fmlookup (StateMembers local) unitName of
             None \<Rightarrow> Some \<lparr>Kind = RelationJoined, RelationId = StateRelationId local,
                           RemoteUnit = unitName, ChangeVersion = changeVersion\<rparr>
           | Some _ \<Rightarrow> joinedLoop local remote rest))"

text \<open>The third loop: a unit known on both sides whose versions differ.\<close>

fun changedLoop :: "State \<Rightarrow> RelationSnapshot \<Rightarrow> string list \<Rightarrow> Info option" where
  "changedLoop local remote [] = None"
| "changedLoop local remote (unitName # rest) =
     (case fmlookup (Members remote) unitName of
        None \<Rightarrow> changedLoop local remote rest
      | Some remoteChangeVersion \<Rightarrow>
          (case fmlookup (StateMembers local) unitName of
             None \<Rightarrow> changedLoop local remote rest
           | Some localChangeVersion \<Rightarrow>
               if remoteChangeVersion \<noteq> localChangeVersion
               then Some \<lparr>Kind = RelationChanged, RelationId = StateRelationId local,
                          RemoteUnit = unitName, ChangeVersion = remoteChangeVersion\<rparr>
               else changedLoop local remote rest))"

text \<open>\<^verbatim>\<open>nextRelationHook\<close>: \<open>Inr\<close> is a hook returned with a nil error, \<open>Inl\<close> the error
  returned with the zero \<^verbatim>\<open>hook.Info\<close>.\<close>

definition nextRelationHook :: "State \<Rightarrow> RelationSnapshot \<Rightarrow> bool \<Rightarrow> error + Info" where
  "nextRelationHook local remote remoteBroken =
     (let relationId = StateRelationId local in
      if ChangedPending local \<noteq> []
      then Inr \<lparr>Kind = RelationChanged, RelationId = relationId,
                RemoteUnit = ChangedPending local,
                ChangeVersion = memberVersion (Members remote) (ChangedPending local)\<rparr>
      else
        let names = sortedUnitNames local remote in
        case departedLoop local remote names of
          Some h \<Rightarrow> Inr h
        | None \<Rightarrow>
            if remoteBroken
            then Inr \<lparr>Kind = RelationBroken, RelationId = relationId,
                      RemoteUnit = [], ChangeVersion = 0\<rparr>
            else
              (case joinedLoop local remote names of
                 Some h \<Rightarrow> Inr h
               | None \<Rightarrow>
                   (case changedLoop local remote names of
                      Some h \<Rightarrow> Inr h
                    | None \<Rightarrow> Inl ErrNoOperation)))"

subsection \<open>The precedence as the specification words it\<close>

text \<open>The specification's reading of the same function when \<open>ChangedPending\<close> is empty:
  \<open>AllUnits\<close> is the sorted sequence of the names of both maps without repetition, and
  each rule takes the first unit of \<open>AllUnits\<close> that matches it. This definition follows
  the specification's words; \<open>nextRelationHook\<close> above follows the code.\<close>

definition nextRelationHook_spec :: "State \<Rightarrow> RelationSnapshot \<Rightarrow> bool \<Rightarrow> error + Info" where
  "nextRelationHook_spec local remote remoteBroken =
     (let L = StateMembers local; R = Members remote;
          AllUnits = sorted_list_of_fset (fmdom L |\<union>| fmdom R) in
      case find (\<lambda>u. u |\<in>| fmdom L \<and> u |\<notin>| fmdom R) AllUnits of
        Some u \<Rightarrow> Inr \<lparr>Kind = RelationDeparted, RelationId = StateRelationId local,
                       RemoteUnit = u, ChangeVersion = memberVersion L u\<rparr>
      | None \<Rightarrow>
          if remoteBroken
          then Inr \<lparr>Kind = RelationBroken, RelationId = StateRelationId local,
                    RemoteUnit = [], ChangeVersion = 0\<rparr>
          else
            (case find (\<lambda>u. u |\<in>| fmdom R \<and> u |\<notin>| fmdom L) AllUnits of
               Some u \<Rightarrow> Inr \<lparr>Kind = RelationJoined, RelationId = StateRelationId local,
                              RemoteUnit = u, ChangeVersion = memberVersion R u\<rparr>
             | None \<Rightarrow>
                 (case find (\<lambda>u. u |\<in>| fmdom L \<and> u |\<in>| fmdom R \<and>
                                  memberVersion R u \<noteq> memberVersion L u) AllUnits of
                    Some u \<Rightarrow> Inr \<lparr>Kind = RelationChanged, RelationId = StateRelationId local,
                                   RemoteUnit = u, ChangeVersion = memberVersion R u\<rparr>
                  | None \<Rightarrow> Inl ErrNoOperation)))"

subsection \<open>Committing a hook to the local state\<close>

text \<open>Modelled from the spec: the code that writes a committed hook to the local state
  (\<^verbatim>\<open>Relationer.CommitHook\<close> and the state directory behind it) is not among the sources.
  The effect is the table of the specification: joined adds the member, changed updates it
  and clears a \<open>ChangedPending\<close> that names the unit, departed removes the member, broken
  clears all members.\<close>

definition commitEffect :: "Info \<Rightarrow> State \<Rightarrow> State" where
  "commitEffect h local =
     (case Kind h of
        RelationJoined \<Rightarrow>
          local\<lparr>StateMembers := fmupd (RemoteUnit h) (ChangeVersion h) (StateMembers local)\<rparr>
      | RelationChanged \<Rightarrow>
          local\<lparr>StateMembers := fmupd (RemoteUnit h) (ChangeVersion h) (StateMembers local),
                ChangedPending :=
                  (if ChangedPending local = RemoteUnit h then [] else ChangedPending local)\<rparr>
      | RelationDeparted \<Rightarrow>
          local\<lparr>StateMembers := fmdrop (RemoteUnit h) (StateMembers local)\<rparr>
      | RelationBroken \<Rightarrow> local\<lparr>StateMembers := fmempty\<rparr>
      | OtherKind _ \<Rightarrow> local)"

text \<open>Calling \<open>nextRelationHook\<close> again and again against the same remote snapshot and
  flag, committing each hook in between. The result is the number of calls made up to
  and including the one that returned no operation, or \<open>None\<close> when the given number of
  calls did not reach it.\<close>

fun callsUntilNoOperation :: "nat \<Rightarrow> State \<Rightarrow> RelationSnapshot \<Rightarrow> bool \<Rightarrow> nat option" where
  "callsUntilNoOperation 0 local remote remoteBroken = None"
| "callsUntilNoOperation (Suc fuel) local remote remoteBroken =
     (case nextRelationHook local remote remoteBroken of
        Inl _ \<Rightarrow> Some 1
      | Inr h \<Rightarrow>
          map_option Suc
            (callsUntilNoOperation fuel (commitEffect h local) remote remoteBroken))"


subsection \<open>The relation set\<close>

text \<open>Modelled from the spec: \<^verbatim>\<open>Relationer\<close>, \<^verbatim>\<open>StateDir\<close> and the API handles
  \<^verbatim>\<open>caasoperator.Relation\<close> and \<^verbatim>\<open>RelationUnit\<close> are declared outside the sources. The
  records keep what \<^verbatim>\<open>relations.go\<close> reads of them: the endpoint's name and whether it is
  implicit, the local state behind the directory, the relation's id, and the mark that
  \<^verbatim>\<open>SetDying\<close> leaves.\<close>

record Endpoint =
  EndpointName :: string
  Implicit :: bool

record RelationUnit =
  Endpoint :: Endpoint

record StateDir =
  State :: State

record Relationer =
  ru :: RelationUnit
  dir :: StateDir
  dying :: bool

record Relation =
  Id_Relation :: int

definition NewRelationer :: "RelationUnit \<Rightarrow> StateDir \<Rightarrow> Relationer" where
  "NewRelationer u d = \<lparr>ru = u, dir = d, dying = False\<rparr>"

definition IsImplicit :: "Relationer \<Rightarrow> bool" where
  "IsImplicit relationer = Implicit (Endpoint (ru relationer))"

text \<open>Modelled from the spec: \<^verbatim>\<open>hooks.Kind.IsRelation\<close> belongs to the charm package; the
  relation hooks are the four kinds of the specification's \<open>HookInfo\<close>.\<close>

definition IsRelation :: "Kind \<Rightarrow> bool" where
  "IsRelation k =
     (case k of
        RelationJoined \<Rightarrow> True
      | RelationChanged \<Rightarrow> True
      | RelationDeparted \<Rightarrow> True
      | RelationBroken \<Rightarrow> True
      | OtherKind _ \<Rightarrow> False)"

text \<open>The classifiers of \<^verbatim>\<open>params\<close>, on an error that may be nil.\<close>

definition IsCodeCannotEnterScopeYet :: "error option \<Rightarrow> bool" where
  "IsCodeCannotEnterScopeYet err = (err = Some CodeCannotEnterScopeYet)"

definition IsCodeCannotEnterScope :: "error option \<Rightarrow> bool" where
  "IsCodeCannotEnterScope err = (err = Some CodeCannotEnterScope)"

definition IsCodeNotFoundOrCodeUnauthorized :: "error option \<Rightarrow> bool" where
  "IsCodeNotFoundOrCodeUnauthorized err = (err = Some CodeNotFound \<or> err = Some CodeUnauthorized)"

text \<open>The \<^verbatim>\<open>relations\<close> struct: the map of relationers, which is the only field the
  methods change. Two further fields record the calls that leave the process:
  \<open>joinCalls\<close> counts the calls of \<^verbatim>\<open>relationer.Join()\<close>, \<open>removeCalls\<close> lists the relation
  ids whose state directory received \<^verbatim>\<open>Remove()\<close>.\<close>

record relations =
  relationers :: "int \<rightharpoonup> Relationer"
  joinCalls :: nat
  removeCalls :: "int list"

subsection \<open>add: joining a relation\<close>

text \<open>What one \<^verbatim>\<open>select\<close> of the loop in \<^verbatim>\<open>add\<close> receives: the abort channel, the closed
  channel of the watcher, or a change; a change is followed by \<^verbatim>\<open>relationer.Join()\<close>, whose
  result (nil or an error) the event carries.\<close>

datatype event =
    Abort
  | ChangesClosed
  | Change "error option"

text \<open>The results of the calls that \<^verbatim>\<open>add\<close> makes outside the package:
  \<^verbatim>\<open>rel.Unit(r.caasUnit)\<close>, \<^verbatim>\<open>r.caasUnit.Watch()\<close>, the events of the loop in the order
  the \<^verbatim>\<open>select\<close> takes them, and \<^verbatim>\<open>worker.Stop(unitWatcher)\<close>.\<close>

record AddCalls =
  UnitResult :: "error + RelationUnit"
  WatchResult :: "error option"
  Selected :: "event list"
  StopResult :: "error option"

text \<open>The loop of \<^verbatim>\<open>add\<close>. When the events run out the loop waits for ever: the result
  is \<open>None\<close>.\<close>

fun addLoop :: "Relation \<Rightarrow> Relationer \<Rightarrow> event list \<Rightarrow> relations \<Rightarrow>
    (error option \<times> relations) option" where
  "addLoop rel relationer [] r = None"
| "addLoop rel relationer (Abort # rest) r = Some (Some ErrLoopAborted, r)"
| "addLoop rel relationer (ChangesClosed # rest) r = Some (Some UnitWatcherClosed, r)"
| "addLoop rel relationer (Change err # rest) r =
     (let r1 = r\<lparr>joinCalls := Suc (joinCalls r)\<rparr> in
      if IsCodeCannotEnterScopeYet err then addLoop rel relationer rest r1
      else
        (case err of
           Some e \<Rightarrow> Some (Some e, r1)
         | None \<Rightarrow>
             Some (None,
               r1\<lparr>relationers := (relationers r1)(Id_Relation rel \<mapsto> relationer)\<rparr>)))"

text \<open>\<^verbatim>\<open>add\<close>. The deferred function stops the watcher on every return of the loop; its
  error becomes the result only when the loop returned nil.\<close>

definition add :: "AddCalls \<Rightarrow> Relation \<Rightarrow> StateDir \<Rightarrow> relations \<Rightarrow>
    (error option \<times> relations) option" where
  "add calls rel d r =
     (case UnitResult calls of
        Inl e \<Rightarrow> Some (Some e, r)
      | Inr u \<Rightarrow>
          let relationer = NewRelationer u d in
          (case WatchResult calls of
             Some e \<Rightarrow> Some (Some e, r)
           | None \<Rightarrow>
               (case addLoop rel relationer (Selected calls) r of
                  None \<Rightarrow> None
                | Some (err, r') \<Rightarrow>
                    Some (case err of None \<Rightarrow> StopResult calls | Some e \<Rightarrow> Some e, r'))))"

subsection \<open>setDying and update\<close>

text \<open>The results of the calls that \<^verbatim>\<open>update\<close> makes outside the package. \<open>SetDying\<close> is
  \<^verbatim>\<open>Relationer.SetDying\<close>, which is not among the sources: it returns its error and the
  relationer as it leaves it. \<open>ImplementedBy\<close> stands for \<^verbatim>\<open>ep.ImplementedBy(ch)\<close> on the
  charm that \<^verbatim>\<open>ReadCharmDir\<close> returned.\<close>

record Env =
  RelationById :: "int \<Rightarrow> error + Relation"
  ReadCharmDir :: "error option"
  Endpoint_Relation :: "Relation \<Rightarrow> error + Endpoint"
  ImplementedBy :: "Endpoint \<Rightarrow> bool"
  ReadStateDir :: "int \<Rightarrow> error + StateDir"
  Remove :: "StateDir \<Rightarrow> error option"
  AddCallsOf :: "Relation \<Rightarrow> AddCalls"
  SetDying :: "Relationer \<Rightarrow> error option \<times> Relationer"

definition setDying :: "(Relationer \<Rightarrow> error option \<times> Relationer) \<Rightarrow> int \<Rightarrow> relations \<Rightarrow>
    error option \<times> relations" where
  "setDying relationerSetDying relId r =
     (case relationers r relId of
        None \<Rightarrow> (None, r)
      | Some relationer \<Rightarrow>
          (case relationerSetDying relationer of
             (err, relationer') \<Rightarrow>
               let r1 = r\<lparr>relationers := (relationers r)(relId \<mapsto> relationer')\<rparr> in
               (case err of
                  Some e \<Rightarrow> (Some e, r1)
                | None \<Rightarrow>
                    if IsImplicit relationer'
                    then (None, r1\<lparr>relationers := (relationers r1)(relId := None)\<rparr>)
                    else (None, r1))))"

text \<open>One round of the loop of \<^verbatim>\<open>update\<close>. \<open>Some (None, r')\<close> goes on with the next
  relation, \<open>Some (Some e, r')\<close> returns \<open>e\<close> from \<^verbatim>\<open>update\<close>, \<open>None\<close> is an \<^verbatim>\<open>add\<close> that
  waits for ever.\<close>

definition updateRelation :: "Env \<Rightarrow> int \<Rightarrow> RelationSnapshot \<Rightarrow> relations \<Rightarrow>
    (error option \<times> relations) option" where
  "updateRelation env relId relationSnapshot r =
     (case relationers r relId of
        Some _ \<Rightarrow>
          if Life relationSnapshot = Dying then Some (setDying (SetDying env) relId r)
          else Some (None, r)
      | None \<Rightarrow>
          if Life relationSnapshot \<noteq> Alive then Some (None, r)
          else
            (case RelationById env relId of
               Inl err \<Rightarrow>
                 if IsCodeNotFoundOrCodeUnauthorized (Some err) then Some (None, r)
                 else Some (Some err, r)
             | Inr rel \<Rightarrow>
                 (case ReadCharmDir env of
                    Some err \<Rightarrow> Some (Some err, r)
                  | None \<Rightarrow>
                      (case Endpoint_Relation env rel of
                         Inl err \<Rightarrow> Some (Some err, r)
                       | Inr ep \<Rightarrow>
                           if \<not> ImplementedBy env ep then Some (None, r)
                           else
                             (case ReadStateDir env relId of
                                Inl err \<Rightarrow> Some (Some err, r)
                              | Inr d \<Rightarrow>
                                  (case add (AddCallsOf env rel) rel d r of
                                     None \<Rightarrow> None
                                   | Some (addErr, r1) \<Rightarrow>
                                       if addErr = None then Some (None, r1)
                                       else
                                         let removeErr = Remove env d;
                                             r2 = r1\<lparr>removeCalls := removeCalls r1 @ [relId]\<rparr> in
                                         if \<not> IsCodeCannotEnterScope addErr
                                         then Some (addErr, r2)
                                         else if removeErr \<noteq> None then Some (removeErr, r2)
                                         else Some (None, r2)))))))"

text \<open>\<^verbatim>\<open>update\<close>: the loop over the remote relations, taken in the order in which the Go
  map hands them out (the list \<open>remote\<close>, one entry for each relId).\<close>

fun update :: "Env \<Rightarrow> (int \<times> RelationSnapshot) list \<Rightarrow> relations \<Rightarrow>
    (error option \<times> relations) option" where
  "update env [] r = Some (None, r)"
| "update env ((relId, relationSnapshot) # rest) r =
     (case updateRelation env relId relationSnapshot r of
        None \<Rightarrow> None
      | Some (Some e, r') \<Rightarrow> Some (Some e, r')
      | Some (None, r') \<Rightarrow> update env rest r')"

subsection \<open>NextHook\<close>

text \<open>What the loop of \<^verbatim>\<open>NextHook\<close> does with one relation that has a relationer: when the
  unit or the relation is dying the snapshot is replaced by the zero snapshot and
  \<open>remoteBroken\<close> is set, and \<open>nextRelationHook\<close> decides.\<close>

definition relationHook :: "Life \<Rightarrow> RelationSnapshot \<Rightarrow> Relationer \<Rightarrow> error + Info" where
  "relationHook remoteLife relationSnapshot relationer =
     (if remoteLife = Dying \<or> Life relationSnapshot = Dying
      then nextRelationHook (State (dir relationer))
             \<lparr>Life = OtherLife [], Members = fmempty\<rparr> True
      else nextRelationHook (State (dir relationer)) relationSnapshot False)"

fun hookLoop :: "Life \<Rightarrow> (int \<times> RelationSnapshot) list \<Rightarrow> relations \<Rightarrow> error + Info" where
  "hookLoop remoteLife [] r = Inl ErrNoOperation"
| "hookLoop remoteLife ((relationId, relationSnapshot) # rest) r =
     (case relationers r relationId of
        None \<Rightarrow> hookLoop remoteLife rest r
      | Some relationer \<Rightarrow>
          if IsImplicit relationer then hookLoop remoteLife rest r
          else
            (case relationHook remoteLife relationSnapshot relationer of
               Inl err \<Rightarrow>
                 if err = ErrNoOperation then hookLoop remoteLife rest r else Inl err
             | Inr h \<Rightarrow> Inr h))"

text \<open>\<^verbatim>\<open>NextHook\<close>; \<open>continue\<close> says whether \<^verbatim>\<open>localState.Kind\<close> is
  \<^verbatim>\<open>operation.Continue\<close>.\<close>

definition NextHook :: "Env \<Rightarrow> bool \<Rightarrow> Life \<Rightarrow> (int \<times> RelationSnapshot) list \<Rightarrow> relations \<Rightarrow>
    ((error + Info) \<times> relations) option" where
  "NextHook env continue remoteLife remote r =
     (case update env remote r of
        None \<Rightarrow> None
      | Some (Some e, r') \<Rightarrow> Some (Inl e, r')
      | Some (None, r') \<Rightarrow>
          if \<not> continue then Some (Inl ErrNoOperation, r')
          else Some (hookLoop remoteLife remote r', r'))"

subsection \<open>Name, PrepareHook and CommitHook\<close>

definition Name :: "relations \<Rightarrow> int \<Rightarrow> error + string" where
  "Name r relId =
     (case relationers r relId of
        None \<Rightarrow> Inl (UnknownRelation relId)
      | Some relationer \<Rightarrow> Inr (EndpointName (Endpoint (ru relationer))))"

text \<open>\<open>prepare\<close> is \<^verbatim>\<open>Relationer.PrepareHook\<close>, which is not among the sources.\<close>

definition PrepareHook :: "(Relationer \<Rightarrow> Info \<Rightarrow> error + string) \<Rightarrow> relations \<Rightarrow> Info \<Rightarrow>
    error + string" where
  "PrepareHook prepare r hookInfo =
     (if \<not> IsRelation (Kind hookInfo) then Inl NotARelationHook
      else
        (case relationers r (RelationId hookInfo) of
           None \<Rightarrow> Inl (UnknownRelation (RelationId hookInfo))
         | Some relationer \<Rightarrow> prepare relationer hookInfo))"

text \<open>\<open>commit\<close> is \<^verbatim>\<open>Relationer.CommitHook\<close>, which is not among the sources: it returns its
  error and the relationer as it leaves it. The relationer is taken out of the map before
  \<open>commit\<close> runs; a relationer that stays in the map is the one \<open>commit\<close> has changed.\<close>

definition CommitHook :: "(Relationer \<Rightarrow> Info \<Rightarrow> error option \<times> Relationer) \<Rightarrow> Info \<Rightarrow>
    relations \<Rightarrow> error option \<times> relations" where
  "CommitHook commit hookInfo r =
     (if \<not> IsRelation (Kind hookInfo) then (Some NotARelationHook, r)
      else
        (case relationers r (RelationId hookInfo) of
           None \<Rightarrow> (Some (UnknownRelation (RelationId hookInfo)), r)
         | Some relationer \<Rightarrow>
             let r1 = (if Kind hookInfo = RelationBroken
                       then r\<lparr>relationers := (relationers r)(RelationId hookInfo := None)\<rparr>
                       else r) in
             (case commit relationer hookInfo of
                (err, relationer') \<Rightarrow>
                  (err,
                   if Kind hookInfo = RelationBroken then r1
                   else r1\<lparr>relationers :=
                            (relationers r1)(RelationId hookInfo \<mapsto> relationer')\<rparr>))))"

subsection \<open>A concrete environment\<close>

text \<open>For running the functions on concrete inputs: an environment in which every call
  outside the package succeeds, every endpoint is implemented by the charm and a new state
  directory holds the empty state; \<open>events\<close> gives, for each relation id, what the
  \<^verbatim>\<open>select\<close> of \<^verbatim>\<open>add\<close> receives.\<close>

definition dbUnit :: RelationUnit where
  "dbUnit = \<lparr>Endpoint = \<lparr>EndpointName = ''db'', Implicit = False\<rparr>\<rparr>"

definition newDir :: "int \<Rightarrow> StateDir" where
  "newDir relId =
     \<lparr>State = \<lparr>StateRelationId = relId, StateMembers = fmempty, ChangedPending = []\<rparr>\<rparr>"

definition quietEnv :: "(int \<Rightarrow> event list) \<Rightarrow> Env" where
  "quietEnv events =
     \<lparr>RelationById = (\<lambda>relId. Inr \<lparr>Id_Relation = relId\<rparr>),
      ReadCharmDir = None,
      Endpoint_Relation = (\<lambda>rel. Inr (Endpoint dbUnit)),
      ImplementedBy = (\<lambda>ep. True),
      ReadStateDir = (\<lambda>relId. Inr (newDir relId)),
      Remove = (\<lambda>d. None),
      AddCallsOf = (\<lambda>rel. \<lparr>UnitResult = Inr dbUnit, WatchResult = None,
                           Selected = events (Id_Relation rel), StopResult = None\<rparr>),
      SetDying = (\<lambda>relationer. (None, relationer\<lparr>dying := True\<rparr>))\<rparr>"

definition noRelations :: relations where
  "noRelations = \<lparr>relationers = Map.empty, joinCalls = 0, removeCalls = []\<rparr>"

section \<open>Properties\<close>

subsection \<open>Evaluating the sorted union of names\<close>

lemma sorted_list_of_fset_empty: "sorted_list_of_fset {||} = []"
  by (simp add: sorted_list_of_fset.rep_eq)

lemma sorted_list_of_fset_finsert:
  "sorted_list_of_fset (finsert x A) =
     (if x |\<in>| A then sorted_list_of_fset A else insort x (sorted_list_of_fset A))"
proof (cases "x |\<in>| A")
  case True
  then show ?thesis by (simp add: finsert_absorb)
next
  case False
  then show ?thesis by (simp add: sorted_list_of_fset.rep_eq)
qed

lemmas names_eval =
  sortedUnitNames_def sorted_list_of_fset_empty sorted_list_of_fset_finsert

subsection \<open>Pending change replay\<close>

text \<open>C1: when \<open>ChangedPending\<close> is not empty, \<open>nextRelationHook\<close> returns a
  \<open>RelationChanged\<close> hook for exactly that unit, with the remote version of the unit (zero
  when the remote snapshot does not have it), whatever the memberships and whatever
  \<open>remoteBroken\<close>.\<close>

theorem pending_change_replay:
  assumes "ChangedPending local \<noteq> []"
  shows "nextRelationHook local remote remoteBroken =
           Inr \<lparr>Kind = RelationChanged, RelationId = StateRelationId local,
                RemoteUnit = ChangedPending local,
                ChangeVersion = (case fmlookup (Members remote) (ChangedPending local) of
                                   None \<Rightarrow> 0 | Some v \<Rightarrow> v)\<rparr>"
  using assms by (simp add: nextRelationHook_def memberVersion_def)

theorem pending_change_replay_witness:
  "nextRelationHook
     \<lparr>StateRelationId = 3, StateMembers = fmupd ''a/0'' 1 fmempty, ChangedPending = ''u/0''\<rparr>
     \<lparr>Life = Dying, Members = fmupd ''b/0'' 7 fmempty\<rparr> True =
   Inr \<lparr>Kind = RelationChanged, RelationId = 3, RemoteUnit = ''u/0'', ChangeVersion = 0\<rparr>"
  using pending_change_replay
    [of "\<lparr>StateRelationId = 3, StateMembers = fmupd ''a/0'' 1 fmempty, ChangedPending = ''u/0''\<rparr>"
        "\<lparr>Life = Dying, Members = fmupd ''b/0'' 7 fmempty\<rparr>" True]
  by simp

subsection \<open>The loops find the first matching unit\<close>

lemma departedLoop_find:
  "departedLoop local remote names =
     map_option (\<lambda>u. \<lparr>Kind = RelationDeparted, RelationId = StateRelationId local,
                       RemoteUnit = u, ChangeVersion = memberVersion (StateMembers local) u\<rparr>)
       (find (\<lambda>u. u |\<in>| fmdom (StateMembers local) \<and> u |\<notin>| fmdom (Members remote)) names)"
  by (induction names)
     (auto simp: memberVersion_def fmlookup_dom_iff split: option.splits)

lemma joinedLoop_find:
  "joinedLoop local remote names =
     map_option (\<lambda>u. \<lparr>Kind = RelationJoined, RelationId = StateRelationId local,
                       RemoteUnit = u, ChangeVersion = memberVersion (Members remote) u\<rparr>)
       (find (\<lambda>u. u |\<in>| fmdom (Members remote) \<and> u |\<notin>| fmdom (StateMembers local)) names)"
  by (induction names)
     (auto simp: memberVersion_def fmlookup_dom_iff split: option.splits)

lemma changedLoop_find:
  "changedLoop local remote names =
     map_option (\<lambda>u. \<lparr>Kind = RelationChanged, RelationId = StateRelationId local,
                       RemoteUnit = u, ChangeVersion = memberVersion (Members remote) u\<rparr>)
       (find (\<lambda>u. u |\<in>| fmdom (StateMembers local) \<and> u |\<in>| fmdom (Members remote) \<and>
                   memberVersion (Members remote) u \<noteq> memberVersion (StateMembers local) u) names)"
  by (induction names)
     (auto simp: memberVersion_def fmlookup_dom_iff split: option.splits)

lemma find_sorted_first:
  "sorted xs \<Longrightarrow> distinct xs \<Longrightarrow> find P xs = Some x \<Longrightarrow> w \<in> set xs \<Longrightarrow> w < x \<Longrightarrow> \<not> P w"
  by (induction xs) (auto split: if_splits)

lemma find_Some_props: "find P xs = Some x \<Longrightarrow> P x \<and> x \<in> set xs"
  by (induction xs) (auto split: if_splits)

lemma sortedUnitNames_props:
  "sorted (sortedUnitNames local remote)"
  "distinct (sortedUnitNames local remote)"
  "set (sortedUnitNames local remote) =
     fset (fmdom (StateMembers local) |\<union>| fmdom (Members remote))"
  by (simp_all add: sortedUnitNames_def sorted_list_of_fset.rep_eq)

subsection \<open>Precedence\<close>

text \<open>C2: with \<open>ChangedPending\<close> empty, \<open>nextRelationHook\<close> is the precedence of the
  specification, first match wins, over the sorted union of the local and remote names:
  the first departed unit with its local version, else \<open>RelationBroken\<close> without a unit
  when \<open>remoteBroken\<close>, else the first unit to join with its remote version, else the first
  unit of both sides whose versions differ, else no operation.\<close>

theorem precedence_first_match:
  assumes "ChangedPending local = []"
  shows "nextRelationHook local remote remoteBroken =
           nextRelationHook_spec local remote remoteBroken"
  using assms
  by (simp add: nextRelationHook_def nextRelationHook_spec_def sortedUnitNames_def Let_def
      departedLoop_find joinedLoop_find changedLoop_find split: option.splits)

theorem precedence_first_match_witness:
  "nextRelationHook
     \<lparr>StateRelationId = 0, StateMembers = fmupd ''a'' 1 fmempty, ChangedPending = []\<rparr>
     \<lparr>Life = Alive, Members = fmupd ''b'' 1 fmempty\<rparr> False =
   nextRelationHook_spec
     \<lparr>StateRelationId = 0, StateMembers = fmupd ''a'' 1 fmempty, ChangedPending = []\<rparr>
     \<lparr>Life = Alive, Members = fmupd ''b'' 1 fmempty\<rparr> False
   \<and> nextRelationHook_spec
     \<lparr>StateRelationId = 0, StateMembers = fmupd ''a'' 1 fmempty, ChangedPending = []\<rparr>
     \<lparr>Life = Alive, Members = fmupd ''b'' 1 fmempty\<rparr> False =
   Inr \<lparr>Kind = RelationDeparted, RelationId = 0, RemoteUnit = ''a'', ChangeVersion = 1\<rparr>"
  using precedence_first_match
    [of "\<lparr>StateRelationId = 0, StateMembers = fmupd ''a'' 1 fmempty, ChangedPending = []\<rparr>"
        "\<lparr>Life = Alive, Members = fmupd ''b'' 1 fmempty\<rparr>" False]
  by (simp add: nextRelationHook_spec_def names_eval memberVersion_def)

subsection \<open>Changes are found by inequality\<close>

text \<open>C3: with \<open>ChangedPending\<close> empty, the same units on both sides (nothing to depart,
  nothing to join) and \<open>remoteBroken\<close> false, a unit \<open>u\<close> whose remote version differs from
  its local version, in either direction, makes \<open>nextRelationHook\<close> return
  \<open>RelationChanged\<close> with the remote version: for the first unit in sorted order whose
  versions differ, which is \<open>u\<close> itself when no smaller unit differs.\<close>

theorem changed_on_inequality:
  assumes pending: "ChangedPending local = []"
    and same: "fmdom (StateMembers local) = fmdom (Members remote)"
    and lv: "fmlookup (StateMembers local) u = Some lv"
    and rv: "fmlookup (Members remote) u = Some rv"
    and ne: "rv \<noteq> lv"
  shows "\<exists>u'. u' \<le> u
           \<and> u' |\<in>| fmdom (StateMembers local) \<and> u' |\<in>| fmdom (Members remote)
           \<and> memberVersion (Members remote) u' \<noteq> memberVersion (StateMembers local) u'
           \<and> (\<forall>w. w < u' \<longrightarrow> fmlookup (StateMembers local) w = fmlookup (Members remote) w)
           \<and> nextRelationHook local remote False =
               Inr \<lparr>Kind = RelationChanged, RelationId = StateRelationId local,
                    RemoteUnit = u', ChangeVersion = memberVersion (Members remote) u'\<rparr>"
proof -
  let ?L = "StateMembers local" and ?R = "Members remote"
  let ?names = "sortedUnitNames local remote"
  let ?P = "\<lambda>u. u |\<in>| fmdom ?L \<and> u |\<in>| fmdom ?R \<and> memberVersion ?R u \<noteq> memberVersion ?L u"
  have dep: "departedLoop local remote ?names = None"
    by (simp add: departedLoop_find same find_None_iff)
  have joi: "joinedLoop local remote ?names = None"
    by (simp add: joinedLoop_find same find_None_iff)
  have uin: "u \<in> set ?names"
    using lv by (simp add: sortedUnitNames_props fmdomI)
  have Pu: "?P u"
    using lv rv ne by (simp add: fmdomI memberVersion_def)
  from uin Pu obtain u' where f: "find ?P ?names = Some u'"
    by (cases "find ?P ?names") (auto simp: find_None_iff)
  from find_Some_props[OF f] have Pu': "?P u'" and u'in: "u' \<in> set ?names" by auto
  have le: "u' \<le> u"
  proof (rule ccontr)
    assume "\<not> u' \<le> u"
    then have "u < u'" by simp
    from find_sorted_first[OF sortedUnitNames_props(1) sortedUnitNames_props(2) f uin this] Pu
    show False by simp
  qed
  have before: "fmlookup ?L w = fmlookup ?R w" if "w < u'" for w
  proof (cases "w \<in> set ?names")
    case True
    from find_sorted_first[OF sortedUnitNames_props(1) sortedUnitNames_props(2) f True that]
    have "\<not> ?P w" .
    moreover from True same have "w |\<in>| fmdom ?L" "w |\<in>| fmdom ?R"
      by (auto simp: sortedUnitNames_props)
    ultimately show ?thesis
      by (auto simp: memberVersion_def fmlookup_dom_iff)
  next
    case False
    then have "w |\<notin>| fmdom ?L" "w |\<notin>| fmdom ?R"
      by (auto simp: sortedUnitNames_props)
    then show ?thesis by (simp add: fmdom_notD)
  qed
  have "nextRelationHook local remote False =
          Inr \<lparr>Kind = RelationChanged, RelationId = StateRelationId local,
               RemoteUnit = u', ChangeVersion = memberVersion ?R u'\<rparr>"
    using pending dep joi f
    by (simp add: nextRelationHook_def Let_def changedLoop_find)
  with le Pu' before show ?thesis by blast
qed

theorem changed_on_inequality_witness:
  "nextRelationHook
     \<lparr>StateRelationId = 0, StateMembers = fmupd ''a'' 5 fmempty, ChangedPending = []\<rparr>
     \<lparr>Life = Alive, Members = fmupd ''a'' 2 fmempty\<rparr> False =
   Inr \<lparr>Kind = RelationChanged, RelationId = 0, RemoteUnit = ''a'', ChangeVersion = 2\<rparr>"
  using changed_on_inequality
    [of "\<lparr>StateRelationId = 0, StateMembers = fmupd ''a'' 5 fmempty, ChangedPending = []\<rparr>"
        "\<lparr>Life = Alive, Members = fmupd ''a'' 2 fmempty\<rparr>" "''a''" 5 2]
  by (auto simp: memberVersion_def)

subsection \<open>Convergence\<close>









text \<open>With \<open>remoteBroken\<close> true there is always a hook, so the repetition never reaches no
  operation, whatever the number of calls.\<close>

lemma broken_always_hook:
  "\<exists>h. nextRelationHook local remote True = Inr h"
  by (simp add: nextRelationHook_def Let_def split: option.splits)

lemma broken_never_no_operation:
  "callsUntilNoOperation n local remote True = None"
proof (induction n arbitrary: local)
  case 0
  show ?case by simp
next
  case (Suc n)
  from broken_always_hook obtain h where "nextRelationHook local remote True = Inr h" by blast
  with Suc.IH show ?case by simp
qed


subsection \<open>Dying relations\<close>

lemma departedLoop_empty_remote:
  "set names = fset (fmdom (StateMembers local)) \<Longrightarrow>
   departedLoop local \<lparr>Life = lf, Members = fmempty\<rparr> names =
     (case names of
        [] \<Rightarrow> None
      | u # _ \<Rightarrow> Some \<lparr>Kind = RelationDeparted, RelationId = StateRelationId local,
                        RemoteUnit = u, ChangeVersion = memberVersion (StateMembers local) u\<rparr>)"
proof (cases names)
  case Nil
  then show ?thesis by simp
next
  case (Cons u rest)
  assume "set names = fset (fmdom (StateMembers local))"
  with Cons have "u |\<in>| fmdom (StateMembers local)" by auto
  then obtain v where "fmlookup (StateMembers local) u = Some v"
    by (auto simp: fmlookup_dom_iff)
  with Cons show ?thesis by (simp add: memberVersion_def)
qed

text \<open>C5 (as amended): when the unit's remote life or the relation snapshot's life is
  \<open>Dying\<close>, the loop of \<open>NextHook\<close> hands \<open>nextRelationHook\<close> the zero snapshot and
  \<open>remoteBroken = True\<close>. A hook is then always returned and it is never
  \<open>RelationJoined\<close>: a pending change is replayed first as \<open>RelationChanged\<close> with version
  zero; otherwise the smallest local member departs with its local version; otherwise,
  with no local member left, the hook is \<open>RelationBroken\<close>. And \<open>setDying\<close> takes a
  relationer out of the relation set when \<open>SetDying\<close> succeeded on it and it is
  implicit.\<close>

theorem dying_relation_hooks:
  assumes dying: "remoteLife = Dying \<or> Life relationSnapshot = Dying"
  shows "relationHook remoteLife relationSnapshot relationer =
           nextRelationHook (State (dir relationer)) \<lparr>Life = OtherLife [], Members = fmempty\<rparr> True
         \<and> (\<exists>h. relationHook remoteLife relationSnapshot relationer = Inr h
               \<and> Kind h \<noteq> RelationJoined
               \<and> (if ChangedPending (State (dir relationer)) \<noteq> []
                  then h = \<lparr>Kind = RelationChanged,
                             RelationId = StateRelationId (State (dir relationer)),
                             RemoteUnit = ChangedPending (State (dir relationer)),
                             ChangeVersion = 0\<rparr>
                  else if StateMembers (State (dir relationer)) = fmempty
                  then h = \<lparr>Kind = RelationBroken,
                             RelationId = StateRelationId (State (dir relationer)),
                             RemoteUnit = [], ChangeVersion = 0\<rparr>
                  else \<exists>u v. fmlookup (StateMembers (State (dir relationer))) u = Some v
                     \<and> (\<forall>w. w |\<in>| fmdom (StateMembers (State (dir relationer)))
                              \<longrightarrow> u \<le> w)
                     \<and> h = \<lparr>Kind = RelationDeparted,
                              RelationId = StateRelationId (State (dir relationer)),
                              RemoteUnit = u, ChangeVersion = v\<rparr>))
         \<and> (relationers r relId = Some known \<and> relationerSetDying known = (None, marked)
              \<and> IsImplicit marked
            \<longrightarrow> (\<exists>r'. setDying relationerSetDying relId r = (None, r')
                      \<and> relationers r' relId = None))"
proof -
  let ?st = "State (dir relationer)"
  let ?empty = "\<lparr>Life = OtherLife [], Members = fmempty\<rparr>"
  let ?names = "sortedUnitNames ?st ?empty"
  have eq: "relationHook remoteLife relationSnapshot relationer = nextRelationHook ?st ?empty True"
    using dying by (auto simp: relationHook_def)
  have sd: "relationers r relId = Some known \<and> relationerSetDying known = (None, marked)
              \<and> IsImplicit marked
            \<longrightarrow> (\<exists>r'. setDying relationerSetDying relId r = (None, r')
                      \<and> relationers r' relId = None)"
    by (simp add: setDying_def)
  have names: "sorted ?names" "set ?names = fset (fmdom (StateMembers ?st))"
    by (simp_all add: sortedUnitNames_props)
  note dep = departedLoop_empty_remote[OF names(2), of "OtherLife []"]
  have hook: "\<exists>h. nextRelationHook ?st ?empty True = Inr h
               \<and> Kind h \<noteq> RelationJoined
               \<and> (if ChangedPending ?st \<noteq> []
                  then h = \<lparr>Kind = RelationChanged, RelationId = StateRelationId ?st,
                             RemoteUnit = ChangedPending ?st, ChangeVersion = 0\<rparr>
                  else if StateMembers ?st = fmempty
                  then h = \<lparr>Kind = RelationBroken, RelationId = StateRelationId ?st,
                             RemoteUnit = [], ChangeVersion = 0\<rparr>
                  else \<exists>u v. fmlookup (StateMembers ?st) u = Some v
                     \<and> (\<forall>w. w |\<in>| fmdom (StateMembers ?st) \<longrightarrow> u \<le> w)
                     \<and> h = \<lparr>Kind = RelationDeparted, RelationId = StateRelationId ?st,
                              RemoteUnit = u, ChangeVersion = v\<rparr>)"
  proof (cases "ChangedPending ?st \<noteq> []")
    case True
    then show ?thesis by (simp add: nextRelationHook_def memberVersion_def)
  next
    case False
    note cp = this
    show ?thesis
    proof (cases ?names)
      case Nil
      with names(2) have "fmdom (StateMembers ?st) = {||}"
        by (metis bot_fset.rep_eq fset_inject list.set(1))
      then have "StateMembers ?st = fmempty"
        by (metis fmrestrict_fset_dom fmrestrict_fset_null)
      with cp Nil dep show ?thesis
        by (simp add: nextRelationHook_def Let_def)
    next
      case (Cons u rest)
      with names have uin: "u |\<in>| fmdom (StateMembers ?st)"
        and least: "\<And>w. w |\<in>| fmdom (StateMembers ?st) \<Longrightarrow> u \<le> w"
        by auto
      from uin have ne: "StateMembers ?st \<noteq> fmempty" by auto
      from uin obtain v where v: "fmlookup (StateMembers ?st) u = Some v"
        by (auto simp: fmlookup_dom_iff)
      from cp Cons dep ne uin least v show ?thesis
        by (simp add: nextRelationHook_def Let_def memberVersion_def)
    qed
  qed
  from eq hook sd show ?thesis by simp
qed

theorem dying_relation_hooks_witness:
  "relationHook Alive \<lparr>Life = Dying, Members = fmupd ''c'' 1 fmempty\<rparr>
     \<lparr>ru = \<lparr>Endpoint = \<lparr>EndpointName = ''db'', Implicit = False\<rparr>\<rparr>,
      dir = \<lparr>State = \<lparr>StateRelationId = 7,
                       StateMembers = fmupd ''b'' 2 (fmupd ''a'' 1 fmempty),
                       ChangedPending = []\<rparr>\<rparr>,
      dying = True\<rparr> =
   Inr \<lparr>Kind = RelationDeparted, RelationId = 7, RemoteUnit = ''a'', ChangeVersion = 1\<rparr>
   \<and> setDying (\<lambda>x. (None, x\<lparr>dying := True\<rparr>)) 7
       \<lparr>relationers = [7 \<mapsto> \<lparr>ru = \<lparr>Endpoint = \<lparr>EndpointName = ''juju-info'', Implicit = True\<rparr>\<rparr>,
                             dir = \<lparr>State = \<lparr>StateRelationId = 7, StateMembers = fmempty,
                                              ChangedPending = []\<rparr>\<rparr>,
                             dying = False\<rparr>],
        joinCalls = 0, removeCalls = []\<rparr> =
     (None, \<lparr>relationers = Map.empty, joinCalls = 0, removeCalls = []\<rparr>)"
  using dying_relation_hooks
    [where remoteLife = Alive
       and relationSnapshot = "\<lparr>Life = Dying, Members = fmupd ''c'' 1 fmempty\<rparr>"
       and relationer =
         "\<lparr>ru = \<lparr>Endpoint = \<lparr>EndpointName = ''db'', Implicit = False\<rparr>\<rparr>,
           dir = \<lparr>State = \<lparr>StateRelationId = 7,
                            StateMembers = fmupd ''b'' 2 (fmupd ''a'' 1 fmempty),
                            ChangedPending = []\<rparr>\<rparr>,
           dying = True\<rparr>"
       and r =
         "\<lparr>relationers =
             [7 \<mapsto> \<lparr>ru = \<lparr>Endpoint = \<lparr>EndpointName = ''juju-info'', Implicit = True\<rparr>\<rparr>,
                     dir = \<lparr>State = \<lparr>StateRelationId = 7, StateMembers = fmempty,
                                      ChangedPending = []\<rparr>\<rparr>,
                     dying = False\<rparr>],
           joinCalls = 0, removeCalls = []\<rparr>"
       and relId = 7
       and known =
         "\<lparr>ru = \<lparr>Endpoint = \<lparr>EndpointName = ''juju-info'', Implicit = True\<rparr>\<rparr>,
           dir = \<lparr>State = \<lparr>StateRelationId = 7, StateMembers = fmempty,
                            ChangedPending = []\<rparr>\<rparr>,
           dying = False\<rparr>"
       and relationerSetDying = "\<lambda>x. (None, x\<lparr>dying := True\<rparr>)"
       and marked =
         "\<lparr>ru = \<lparr>Endpoint = \<lparr>EndpointName = ''juju-info'', Implicit = True\<rparr>\<rparr>,
           dir = \<lparr>State = \<lparr>StateRelationId = 7, StateMembers = fmempty,
                            ChangedPending = []\<rparr>\<rparr>,
           dying = True\<rparr>"]
  by (simp add: nextRelationHook_def names_eval IsImplicit_def setDying_def)

text \<open>A dying relation whose local state has a pending change gets a member-level
  \<open>RelationChanged\<close> hook.\<close>

theorem dying_relation_changed_counterexample:
  "relationHook Alive \<lparr>Life = Dying, Members = fmempty\<rparr>
     \<lparr>ru = \<lparr>Endpoint = \<lparr>EndpointName = ''db'', Implicit = False\<rparr>\<rparr>,
      dir = \<lparr>State = \<lparr>StateRelationId = 7, StateMembers = fmempty,
                       ChangedPending = ''u/0''\<rparr>\<rparr>,
      dying = True\<rparr> =
   Inr \<lparr>Kind = RelationChanged, RelationId = 7, RemoteUnit = ''u/0'', ChangeVersion = 0\<rparr>"
  by (simp add: relationHook_def nextRelationHook_def memberVersion_def)

text \<open>The same at the level of \<open>NextHook\<close>: when the unit is dying, no relation gets a
  \<open>RelationJoined\<close> hook, in whatever order the relations are visited.\<close>

lemma broken_hook_not_joined:
  "nextRelationHook local remote True = Inr h \<Longrightarrow> Kind h \<noteq> RelationJoined"
  by (auto simp: nextRelationHook_def Let_def departedLoop_find split: if_splits option.splits)

lemma hookLoop_unit_dying:
  "hookLoop Dying remote r = Inr h \<Longrightarrow> Kind h \<noteq> RelationJoined"
proof (induction remote)
  case Nil
  then show ?case by simp
next
  case (Cons entry remote)
  obtain relationId relationSnapshot where entry: "entry = (relationId, relationSnapshot)"
    by (cases entry)
  show ?case
  proof (cases "relationers r relationId")
    case None
    with Cons entry show ?thesis by simp
  next
    case (Some relationer)
    show ?thesis
    proof (cases "IsImplicit relationer")
      case True
      with Cons entry Some show ?thesis by simp
    next
      case False
      show ?thesis
      proof (cases "relationHook Dying relationSnapshot relationer")
        case (Inl err)
        with Cons entry Some False show ?thesis by (simp split: if_splits)
      next
        case (Inr h')
        with Cons.prems entry Some False have "h' = h" by simp
        with Inr have "nextRelationHook (State (dir relationer))
                         \<lparr>Life = OtherLife [], Members = fmempty\<rparr> True = Inr h"
          by (simp add: relationHook_def)
        then show ?thesis by (rule broken_hook_not_joined)
      qed
    qed
  qed
qed

lemma NextHook_unit_dying:
  "NextHook env continue Dying remote r = Some (Inr h, r') \<Longrightarrow> Kind h \<noteq> RelationJoined"
  by (auto simp: NextHook_def split: option.splits prod.splits if_splits
      dest: hookLoop_unit_dying)

subsection \<open>Joining, updating and committing\<close>

lemma addLoop_rejections:
  "addLoop rel relationer (replicate n (Change (Some CodeCannotEnterScopeYet)) @ evs) r =
     addLoop rel relationer evs (r\<lparr>joinCalls := joinCalls r + n\<rparr>)"
  by (induction n arbitrary: r) (simp_all add: IsCodeCannotEnterScopeYet_def Let_def)

lemma addLoop_error_keeps_relationers:
  "addLoop rel relationer evs r = Some (Some e, r') \<Longrightarrow> relationers r' = relationers r"
proof (induction evs arbitrary: r)
  case Nil
  then show ?case by simp
next
  case (Cons ev evs)
  show ?case
  proof (cases ev)
    case Abort
    with Cons.prems show ?thesis by auto
  next
    case ChangesClosed
    with Cons.prems show ?thesis by auto
  next
    case (Change err)
    show ?thesis
    proof (cases "IsCodeCannotEnterScopeYet err")
      case True
      with Cons.prems Change
      have "addLoop rel relationer evs (r\<lparr>joinCalls := Suc (joinCalls r)\<rparr>) = Some (Some e, r')"
        by (simp add: Let_def)
      from Cons.IH[OF this] show ?thesis by simp
    next
      case False
      with Cons.prems Change show ?thesis
        by (cases err) (auto simp: Let_def)
    qed
  qed
qed

lemma add_error_keeps_relationers:
  assumes "add calls rel d r = Some (Some e, r')" and "StopResult calls = None"
  shows "relationers r' = relationers r"
proof (cases "UnitResult calls")
  case (Inl a)
  with assms show ?thesis by (auto simp: add_def)
next
  case (Inr u)
  show ?thesis
  proof (cases "WatchResult calls")
    case (Some a)
    with Inr assms show ?thesis by (auto simp: add_def)
  next
    case None
    with Inr assms obtain err where
      "addLoop rel (NewRelationer u d) (Selected calls) r = Some (Some err, r')"
      by (auto simp: add_def Let_def split: option.splits)
    then show ?thesis by (rule addLoop_error_keeps_relationers)
  qed
qed

text \<open>C6 (as amended): in \<open>update\<close>, when \<open>add\<close> fails for a newly seen \<open>Alive\<close>
  relation, \<open>Remove\<close> is called on the state directory just read, whatever the error. An
  error other than "cannot enter scope" is returned from \<open>update\<close>. The "cannot enter
  scope" error is not returned: \<open>update\<close> returns the error of the removal when the removal
  failed, and otherwise goes on with the remaining relations. When stopping the watcher
  did not fail, a failed \<open>add\<close> has left the map of relationers as it was.\<close>

theorem update_add_failure:
  assumes new: "relationers r relId = None"
    and alive: "Life relationSnapshot = Alive"
    and rel: "RelationById env relId = Inr rel"
    and charm: "ReadCharmDir env = None"
    and ep: "Endpoint_Relation env rel = Inr ep"
    and impl: "ImplementedBy env ep"
    and sdir: "ReadStateDir env relId = Inr d"
    and addf: "add (AddCallsOf env rel) rel d r = Some (Some addErr, r1)"
  shows "update env ((relId, relationSnapshot) # rest) r =
           (let r2 = r1\<lparr>removeCalls := removeCalls r1 @ [relId]\<rparr> in
            if addErr \<noteq> CodeCannotEnterScope then Some (Some addErr, r2)
            else
              (case Remove env d of
                 Some removeErr \<Rightarrow> Some (Some removeErr, r2)
               | None \<Rightarrow> update env rest r2))
         \<and> (StopResult (AddCallsOf env rel) = None \<longrightarrow> relationers r1 = relationers r)"
proof -
  have one: "updateRelation env relId relationSnapshot r =
           (let r2 = r1\<lparr>removeCalls := removeCalls r1 @ [relId]\<rparr> in
            if addErr \<noteq> CodeCannotEnterScope then Some (Some addErr, r2)
            else Some (Remove env d, r2))"
    using assms
    by (cases "Remove env d") (simp_all add: updateRelation_def IsCodeCannotEnterScope_def Let_def)
  have "update env ((relId, relationSnapshot) # rest) r =
           (let r2 = r1\<lparr>removeCalls := removeCalls r1 @ [relId]\<rparr> in
            if addErr \<noteq> CodeCannotEnterScope then Some (Some addErr, r2)
            else
              (case Remove env d of
                 Some removeErr \<Rightarrow> Some (Some removeErr, r2)
               | None \<Rightarrow> update env rest r2))"
    by (cases "Remove env d") (simp_all add: one Let_def)
  moreover have "StopResult (AddCallsOf env rel) = None \<longrightarrow> relationers r1 = relationers r"
    using add_error_keeps_relationers[OF addf] by simp
  ultimately show ?thesis by simp
qed

text \<open>C7: when \<open>add\<close> has reached its loop (the relation unit and the watcher were
  obtained) and the abort channel is selected, after any number \<open>n\<close> of "cannot enter
  scope yet" rejections, \<open>add\<close> returns \<open>ErrLoopAborted\<close>; the map of relationers is as
  before and \<open>Join\<close> was called \<open>n\<close> times, so not at all when the abort comes before any
  change of the watcher.\<close>

theorem add_aborted:
  assumes "UnitResult calls = Inr u"
    and "WatchResult calls = None"
    and "Selected calls = replicate n (Change (Some CodeCannotEnterScopeYet)) @ Abort # rest"
  shows "add calls rel d r = Some (Some ErrLoopAborted, r\<lparr>joinCalls := joinCalls r + n\<rparr>)"
  using assms by (simp add: add_def Let_def addLoop_rejections)


text \<open>C9: for a registered relation id, \<open>CommitHook\<close> with a \<open>RelationBroken\<close> hook
  whose commit succeeds returns nil and leaves a relation set in which \<open>Name\<close> for that id
  fails with the unknown-relation error, and so does \<open>PrepareHook\<close> for every relation
  hook of that id (a hook that is not a relation hook is refused as such).\<close>

theorem broken_commit_unregisters:
  assumes "relationers r (RelationId hookInfo) = Some relationer"
    and "Kind hookInfo = RelationBroken"
    and "commit relationer hookInfo = (None, relationer')"
  shows "fst (CommitHook commit hookInfo r) = None
         \<and> Name (snd (CommitHook commit hookInfo r)) (RelationId hookInfo) =
             Inl (UnknownRelation (RelationId hookInfo))
         \<and> (\<forall>h. RelationId h = RelationId hookInfo \<longrightarrow>
               PrepareHook prepare (snd (CommitHook commit hookInfo r)) h =
                 (if IsRelation (Kind h) then Inl (UnknownRelation (RelationId hookInfo))
                  else Inl NotARelationHook))"
  using assms
  by (simp add: CommitHook_def Name_def PrepareHook_def IsRelation_def)

text \<open>C10: for a \<open>RelationBroken\<close> hook whose id is registered, \<open>CommitHook\<close> returns the
  error of the relationer's commit, whatever it is, and the relation set it leaves is the
  one before with that id deleted: the relationer is unregistered also when the commit
  fails.\<close>

theorem broken_unregisters_before_commit:
  assumes "relationers r (RelationId hookInfo) = Some relationer"
    and "Kind hookInfo = RelationBroken"
  shows "CommitHook commit hookInfo r =
           (fst (commit relationer hookInfo),
            r\<lparr>relationers := (relationers r)(RelationId hookInfo := None)\<rparr>)
         \<and> relationers (snd (CommitHook commit hookInfo r)) (RelationId hookInfo) = None"
  using assms
  by (simp add: CommitHook_def IsRelation_def split: prod.splits)


subsection \<open>Concrete runs\<close>

lemmas concrete_eval =
  quietEnv_def noRelations_def dbUnit_def newDir_def NewRelationer_def
  updateRelation_def add_def Let_def
  IsCodeCannotEnterScope_def IsCodeCannotEnterScopeYet_def IsCodeNotFoundOrCodeUnauthorized_def

text \<open>A single new relation whose \<open>Join\<close> fails with "cannot enter scope": the directory
  is removed and \<open>update\<close> returns nil.\<close>

theorem update_swallows_cannot_enter_scope_counterexample:
  "update (quietEnv (\<lambda>relId. [Change (Some CodeCannotEnterScope)]))
     [(1, \<lparr>Life = Alive, Members = fmempty\<rparr>)] noRelations =
   Some (None, \<lparr>relationers = Map.empty, joinCalls = 1, removeCalls = [1]\<rparr>)"
  by (simp add: concrete_eval)

theorem update_add_failure_witness:
  "update (quietEnv (\<lambda>relId. if relId = 1 then [Change (Some CodeCannotEnterScope)]
                              else [Change None]))
     [(1, \<lparr>Life = Alive, Members = fmempty\<rparr>), (2, \<lparr>Life = Alive, Members = fmempty\<rparr>)]
     noRelations =
   Some (None, \<lparr>relationers = [2 \<mapsto> NewRelationer dbUnit (newDir 2)],
                joinCalls = 2, removeCalls = [1]\<rparr>)"
  using update_add_failure
    [where env = "quietEnv (\<lambda>relId. if relId = 1 then [Change (Some CodeCannotEnterScope)]
                                      else [Change None])"
       and relId = 1
       and relationSnapshot = "\<lparr>Life = Alive, Members = fmempty\<rparr>"
       and rest = "[(2, \<lparr>Life = Alive, Members = fmempty\<rparr>)]"
       and r = noRelations
       and rel = "\<lparr>Id_Relation = 1\<rparr>"
       and ep = "Endpoint dbUnit"
       and d = "newDir 1"
       and addErr = CodeCannotEnterScope
       and ?r1.0 = "\<lparr>relationers = Map.empty, joinCalls = 1, removeCalls = []\<rparr>"]
  by (simp add: concrete_eval)

theorem add_aborted_witness:
  "add \<lparr>UnitResult = Inr dbUnit, WatchResult = None, Selected = [Abort, Change None],
        StopResult = None\<rparr> \<lparr>Id_Relation = 3\<rparr> (newDir 3) noRelations =
   Some (Some ErrLoopAborted, noRelations)"
  using add_aborted
    [where calls = "\<lparr>UnitResult = Inr dbUnit, WatchResult = None,
                     Selected = [Abort, Change None], StopResult = None\<rparr>"
       and u = dbUnit and n = 0 and rest = "[Change None]"
       and rel = "\<lparr>Id_Relation = 3\<rparr>" and d = "newDir 3" and r = noRelations]
  by simp


theorem broken_commit_unregisters_witness:
  "Name (snd (CommitHook (\<lambda>relationer h. (None, relationer))
           \<lparr>Kind = RelationBroken, RelationId = 7, RemoteUnit = [], ChangeVersion = 0\<rparr>
           \<lparr>relationers = [7 \<mapsto> NewRelationer dbUnit (newDir 7)],
             joinCalls = 1, removeCalls = []\<rparr>)) 7 = Inl (UnknownRelation 7)
   \<and> PrepareHook (\<lambda>relationer h. Inr ''db-relation-changed'')
       (snd (CommitHook (\<lambda>relationer h. (None, relationer))
           \<lparr>Kind = RelationBroken, RelationId = 7, RemoteUnit = [], ChangeVersion = 0\<rparr>
           \<lparr>relationers = [7 \<mapsto> NewRelationer dbUnit (newDir 7)],
             joinCalls = 1, removeCalls = []\<rparr>))
       \<lparr>Kind = RelationChanged, RelationId = 7, RemoteUnit = ''u/0'', ChangeVersion = 4\<rparr> =
     Inl (UnknownRelation 7)"
  using broken_commit_unregisters
    [where r = "\<lparr>relationers = [7 \<mapsto> NewRelationer dbUnit (newDir 7)],
                 joinCalls = 1, removeCalls = []\<rparr>"
       and hookInfo = "\<lparr>Kind = RelationBroken, RelationId = 7, RemoteUnit = [],
                        ChangeVersion = 0\<rparr>"
       and relationer = "NewRelationer dbUnit (newDir 7)"
       and relationer' = "NewRelationer dbUnit (newDir 7)"
       and commit = "\<lambda>relationer h. (None, relationer)"
       and prepare = "\<lambda>relationer h. Inr ''db-relation-changed''"]
  by (simp add: IsRelation_def)

theorem broken_unregisters_before_commit_witness:
  "CommitHook (\<lambda>relationer h. (Some (OtherError ''write failed''), relationer))
     \<lparr>Kind = RelationBroken, RelationId = 7, RemoteUnit = [], ChangeVersion = 0\<rparr>
     \<lparr>relationers = [7 \<mapsto> NewRelationer dbUnit (newDir 7)], joinCalls = 1, removeCalls = []\<rparr> =
   (Some (OtherError ''write failed''),
    \<lparr>relationers = Map.empty, joinCalls = 1, removeCalls = []\<rparr>)"
  using broken_unregisters_before_commit
    [where r = "\<lparr>relationers = [7 \<mapsto> NewRelationer dbUnit (newDir 7)],
                 joinCalls = 1, removeCalls = []\<rparr>"
       and hookInfo = "\<lparr>Kind = RelationBroken, RelationId = 7, RemoteUnit = [],
                        ChangeVersion = 0\<rparr>"
       and relationer = "NewRelationer dbUnit (newDir 7)"
       and commit = "\<lambda>relationer h. (Some (OtherError ''write failed''), relationer)"]
  by simp

end
